theory Spec2Isabelle
  imports Main "HOL-Library.Word"
begin

unbundle bit_operations_syntax

section \<open>Build configuration\<close>

text \<open>
  The flight-controller demo is compiled for exactly one build type and one CPU.
  Both selections are preprocessor switches; here they are parameters of the model, so
  that every theorem below speaks about each build the source can produce.
  With neither build type given the source defaults to the ground build, with no CPU
  given to RISC-V; giving both build types is a compile error.
\<close>

datatype build = FLIGHT_BUILD | GROUND_BUILD

datatype cpu = CPU_ARM | CPU_RISCV

text \<open>The thrust cap in Newtons: 5000 in flight builds, 4000 in ground builds.
  It is an \<open>int\<close> constant of the C program.\<close>

fun CFG_MAX_THRUST_N :: "build \<Rightarrow> int" where
  "CFG_MAX_THRUST_N FLIGHT_BUILD = 5000"
| "CFG_MAX_THRUST_N GROUND_BUILD = 4000"

section \<open>Simulated hardware registers\<close>

type_synonym u32 = "32 word"

record hw_regs_t =
  CTRL :: u32
  STATUS :: u32
  THRUST :: u32
  SENS_TEMP :: u32

text \<open>The register bank is one static object, zero-initialised at program start.
  Every operation below takes the bank and returns the bank it leaves behind.\<close>

definition HW :: hw_regs_t where
  "HW = \<lparr>CTRL = 0, STATUS = 0, THRUST = 0, SENS_TEMP = 0\<rparr>"

definition CTRL_ENABLE :: u32 where
  "CTRL_ENABLE = push_bit 0 1"

definition CTRL_FAULT :: u32 where
  "CTRL_FAULT = push_bit 1 1"

text \<open>
  The log and trace macros write to the standard error stream only (and expand to
  nothing in flight builds); they touch no register and are left out of the model.
\<close>

definition ENABLE_SYSTEM :: "hw_regs_t \<Rightarrow> hw_regs_t" where
  "ENABLE_SYSTEM hw = hw\<lparr>CTRL := CTRL hw OR CTRL_ENABLE\<rparr>"

definition DISABLE_SYSTEM :: "hw_regs_t \<Rightarrow> hw_regs_t" where
  "DISABLE_SYSTEM hw = hw\<lparr>CTRL := CTRL hw AND NOT CTRL_ENABLE\<rparr>"

definition SIGNAL_FAULT :: "hw_regs_t \<Rightarrow> hw_regs_t" where
  "SIGNAL_FAULT hw = hw\<lparr>CTRL := CTRL hw OR CTRL_FAULT\<rparr>"

text \<open>
  Thrust write with safety cap. The request is converted to a 32-bit unsigned value;
  the comparison with the cap is an unsigned comparison, the \<open>int\<close> cap being
  converted to unsigned as C's usual arithmetic conversions prescribe.
\<close>

definition SET_THRUST_N :: "build \<Rightarrow> u32 \<Rightarrow> hw_regs_t \<Rightarrow> hw_regs_t" where
  "SET_THRUST_N b newton hw =
     (let n = newton;
          n = (if n > word_of_int (CFG_MAX_THRUST_N b)
               then word_of_int (CFG_MAX_THRUST_N b) else n)
      in hw\<lparr>THRUST := n\<rparr>)"

text \<open>
  The fault test. The source has no function of this name: it is the condition that
  \<open>run_control_loop_once\<close> evaluates on the control register, named here so that
  theorems can speak about it.
\<close>

definition fault_is_set :: "hw_regs_t \<Rightarrow> bool" where
  "fault_is_set hw = (CTRL hw AND CTRL_FAULT \<noteq> 0)"

section \<open>Sensor read\<close>

text \<open>
  Both sensor readers store the temperature register, converted to \<open>int\<close>, through
  the out pointer and return 0. The out parameter is modelled as the second component of
  the result. The conversion of a 32-bit unsigned value to \<open>int\<close> is the
  two's-complement reading.
\<close>

definition read_sensor_riscv :: "hw_regs_t \<Rightarrow> int \<times> int" where
  "read_sensor_riscv hw = (0, sint (SENS_TEMP hw))"

definition read_sensor_arm :: "hw_regs_t \<Rightarrow> int \<times> int" where
  "read_sensor_arm hw = (0, sint (SENS_TEMP hw))"

fun READ_TEMP_RAW :: "cpu \<Rightarrow> hw_regs_t \<Rightarrow> int \<times> int" where
  "READ_TEMP_RAW CPU_ARM hw = read_sensor_arm hw"
| "READ_TEMP_RAW CPU_RISCV hw = read_sensor_riscv hw"

section \<open>Error codes and messages\<close>

text \<open>The error table gives each code its number and its message. The control
  functions return the codes as \<open>int\<close>.\<close>

definition ERR_OK :: int where "ERR_OK = 0"
definition ERR_SENSOR_FAIL :: int where "ERR_SENSOR_FAIL = 10"
definition ERR_THRUST_RANGE :: int where "ERR_THRUST_RANGE = 20"
definition ERR_SYSTEM_FAULT :: int where "ERR_SYSTEM_FAULT = 30"

definition error_to_str :: "int \<Rightarrow> string" where
  "error_to_str e =
     (if e = ERR_OK then ''No Error''
      else if e = ERR_SENSOR_FAIL then ''Sensor Failure''
      else if e = ERR_THRUST_RANGE then ''Thrust Out of Range''
      else if e = ERR_SYSTEM_FAULT then ''System Fault''
      else ''Unknown'')"

section \<open>Guidance and control\<close>

definition init_system :: "hw_regs_t \<Rightarrow> int \<times> hw_regs_t" where
  "init_system hw =
     (let hw = ENABLE_SYSTEM hw;
          hw = hw\<lparr>SENS_TEMP := 42\<rparr>
      in (0, hw))"

text \<open>
  \<open>poll_temperature_c\<close> reads the bank and writes its out parameter only when the
  read succeeds. Its second argument is the value the out parameter holds at the call,
  the second component of its result the value it holds at the return.
\<close>

definition poll_temperature_c :: "cpu \<Rightarrow> hw_regs_t \<Rightarrow> int \<Rightarrow> int \<times> int" where
  "poll_temperature_c c hw out_c =
     (let raw = (0::int);
          (r, raw) = READ_TEMP_RAW c hw
      in if r \<noteq> 0 then (ERR_SENSOR_FAIL, out_c)
         else (ERR_OK, raw))"

definition command_thrust :: "build \<Rightarrow> u32 \<Rightarrow> hw_regs_t \<Rightarrow> int \<times> hw_regs_t" where
  "command_thrust b desired_n hw =
     (if desired_n > word_of_int (CFG_MAX_THRUST_N b * 2)
      then (ERR_THRUST_RANGE, hw)
      else (ERR_OK, SET_THRUST_N b desired_n hw))"

definition run_control_loop_once :: "build \<Rightarrow> cpu \<Rightarrow> hw_regs_t \<Rightarrow> int \<times> hw_regs_t" where
  "run_control_loop_once b c hw =
     (let temp_c = (0::int);
          (rc, temp_c) = poll_temperature_c c hw temp_c
      in if rc \<noteq> ERR_OK then (rc, hw)
         else
           let desired = (if temp_c < 30 then 3000 else 1500);
               (rc, hw) = command_thrust b desired hw
           in if rc \<noteq> ERR_OK then (rc, hw)
              else if CTRL hw AND CTRL_FAULT \<noteq> 0 then (ERR_SYSTEM_FAULT, hw)
              else (ERR_OK, hw))"

text \<open>The demo loop of the main program mutates the temperature after each cycle that
  returned \<open>ERR_OK\<close>; the addition wraps at 32 bits.\<close>

definition mutate_temp :: "hw_regs_t \<Rightarrow> hw_regs_t" where
  "mutate_temp hw = hw\<lparr>SENS_TEMP := SENS_TEMP hw + 5\<rparr>"

section \<open>Sequences of operations\<close>

text \<open>
  The operations a caller can perform on the register bank, and the bank that a sequence
  of them leaves behind. Polling the temperature only reads the bank. Return codes are
  dropped here: the sequence goes on whatever an operation returned.
\<close>

datatype op = Run_once | Command_thrust u32 | Set_thrust u32 | Poll_temperature
  | Enable | Disable | Initialize | Signal_fault | Mutate_temp

fun step :: "build \<Rightarrow> cpu \<Rightarrow> op \<Rightarrow> hw_regs_t \<Rightarrow> hw_regs_t" where
  "step b c Run_once hw = snd (run_control_loop_once b c hw)"
| "step b c (Command_thrust r) hw = snd (command_thrust b r hw)"
| "step b c (Set_thrust r) hw = SET_THRUST_N b r hw"
| "step b c Poll_temperature hw = hw"
| "step b c Enable hw = ENABLE_SYSTEM hw"
| "step b c Disable hw = DISABLE_SYSTEM hw"
| "step b c Initialize hw = snd (init_system hw)"
| "step b c Signal_fault hw = SIGNAL_FAULT hw"
| "step b c Mutate_temp hw = mutate_temp hw"

fun steps :: "build \<Rightarrow> cpu \<Rightarrow> op list \<Rightarrow> hw_regs_t \<Rightarrow> hw_regs_t" where
  "steps b c [] hw = hw"
| "steps b c (x # xs) hw = steps b c xs (step b c x hw)"

section \<open>Basic facts\<close>

lemmas error_codes = ERR_OK_def ERR_SENSOR_FAIL_def ERR_THRUST_RANGE_def ERR_SYSTEM_FAULT_def

lemma cap_word_less:
  "word_of_int (CFG_MAX_THRUST_N b) < (n :: u32) \<longleftrightarrow> CFG_MAX_THRUST_N b < uint n"
  by (cases b) (simp_all add: word_less_def)

lemma cap2_word_less:
  "word_of_int (CFG_MAX_THRUST_N b * 2) < (n :: u32) \<longleftrightarrow> 2 * CFG_MAX_THRUST_N b < uint n"
  by (cases b) (simp_all add: word_less_def)

lemma uint_cap: "uint (word_of_int (CFG_MAX_THRUST_N b) :: u32) = CFG_MAX_THRUST_N b"
  by (cases b) simp_all

lemma CTRL_FAULT_eq: "CTRL_FAULT = 2"
  by (simp add: CTRL_FAULT_def)

lemma CTRL_ENABLE_eq: "CTRL_ENABLE = 1"
  by (simp add: CTRL_ENABLE_def)

lemma CTRL_FAULT_neq0: "CTRL_FAULT \<noteq> 0"
  by (simp add: CTRL_FAULT_eq)

lemma or_and_same: "(x OR y) AND y = y" for x y :: u32
  by (simp add: bit_eq_iff bit_simps)

lemma fault_bit_or: "(x OR y) AND CTRL_FAULT \<noteq> 0" if "x AND CTRL_FAULT \<noteq> 0" for x y :: u32
  using that by (auto simp add: CTRL_FAULT_eq bit_eq_iff bit_simps)

lemma fault_bit_disable: "(x AND NOT CTRL_ENABLE) AND CTRL_FAULT = x AND CTRL_FAULT" for x :: u32
  by (auto simp add: CTRL_FAULT_eq CTRL_ENABLE_eq bit_eq_iff bit_simps)

lemma fault_bit_enable: "(x OR CTRL_ENABLE) AND CTRL_FAULT = x AND CTRL_FAULT" for x :: u32
  by (auto simp add: CTRL_FAULT_eq CTRL_ENABLE_eq bit_eq_iff bit_simps)

lemma fault_after_signal: "CTRL (SIGNAL_FAULT hw) AND CTRL_FAULT \<noteq> 0"
  by (simp add: SIGNAL_FAULT_def or_and_same) (simp add: CTRL_FAULT_eq)

text \<open>The simulated sensor read never fails, on either CPU.\<close>

lemma poll_ok: "poll_temperature_c c hw t = (ERR_OK, sint (SENS_TEMP hw))"
  by (cases c) (simp_all add: poll_temperature_c_def read_sensor_arm_def read_sensor_riscv_def)

text \<open>Both values of the thrust policy lie below the cap of either build, so the policy's
  command is neither rejected nor clamped.\<close>

lemma policy_le_cap:
  "\<not> word_of_int (CFG_MAX_THRUST_N b) < (if t < 30 then 3000 else (1500 :: u32))" for t :: int
  by (cases b) (simp_all add: word_less_def)

lemma policy_le_cap2:
  "\<not> word_of_int (CFG_MAX_THRUST_N b * 2) < (if t < 30 then 3000 else (1500 :: u32))" for t :: int
  by (cases b) (simp_all add: word_less_def)

lemma command_policy:
  "command_thrust b (if t < 30 then 3000 else 1500) hw =
     (ERR_OK, hw\<lparr>THRUST := (if t < 30 then 3000 else 1500)\<rparr>)" for t :: int
  unfolding command_thrust_def SET_THRUST_N_def
  using policy_le_cap [of b t] policy_le_cap2 [of b t]
  by (simp del: of_int_mult)

text \<open>One control cycle, in closed form: the policy's thrust is written, and the return
  code is decided by the fault bit alone.\<close>

lemma run_once_eq:
  "run_control_loop_once b c hw =
     (if CTRL hw AND CTRL_FAULT \<noteq> 0 then ERR_SYSTEM_FAULT else ERR_OK,
      hw\<lparr>THRUST := (if sint (SENS_TEMP hw) < 30 then 3000 else 1500)\<rparr>)"
  by (simp add: run_control_loop_once_def poll_ok command_policy)

lemma CTRL_SET_THRUST_N: "CTRL (SET_THRUST_N b r hw) = CTRL hw"
  by (simp add: SET_THRUST_N_def)

lemma CTRL_command_thrust: "CTRL (snd (command_thrust b r hw)) = CTRL hw"
  by (simp add: command_thrust_def CTRL_SET_THRUST_N)

lemma CTRL_run_once: "CTRL (snd (run_control_loop_once b c hw)) = CTRL hw"
  by (simp add: run_once_eq)

lemma step_fault: "fault_is_set hw \<Longrightarrow> fault_is_set (step b c x hw)"
  by (cases x)
    (simp_all add: fault_is_set_def CTRL_run_once CTRL_command_thrust CTRL_SET_THRUST_N
      ENABLE_SYSTEM_def DISABLE_SYSTEM_def init_system_def SIGNAL_FAULT_def mutate_temp_def
      fault_bit_or fault_bit_disable fault_bit_enable CTRL_FAULT_neq0)

section \<open>The thrust cap\<close>

text \<open>
  Claim C1. Whatever thrust is requested, also above twice the cap, the thrust register
  holds at most the configured cap once \<open>SET_THRUST_N\<close> has run.
\<close>

theorem set_thrust_capped:
  "uint (THRUST (SET_THRUST_N b r hw)) \<le> CFG_MAX_THRUST_N b"
  by (simp add: SET_THRUST_N_def cap_word_less uint_cap)

text \<open>
  Claim C4. A request of at most the cap is written to the thrust register as it is.
\<close>

theorem set_thrust_exact:
  "uint r \<le> CFG_MAX_THRUST_N b \<Longrightarrow> THRUST (SET_THRUST_N b r hw) = r"
  by (simp add: SET_THRUST_N_def cap_word_less)

theorem set_thrust_exact_witness:
  "uint (4000 :: u32) \<le> CFG_MAX_THRUST_N GROUND_BUILD \<and>
   THRUST (SET_THRUST_N GROUND_BUILD 4000 HW) = 4000"
  using set_thrust_exact [of 4000 GROUND_BUILD HW] by simp

text \<open>
  Claim C2. A request above twice the cap is answered with \<open>ERR_THRUST_RANGE\<close>, and
  the register bank, the thrust register in particular, is what it was before the call.
\<close>

theorem command_thrust_reject:
  "2 * CFG_MAX_THRUST_N b < uint r \<Longrightarrow>
   command_thrust b r hw = (ERR_THRUST_RANGE, hw) \<and>
   THRUST (snd (command_thrust b r hw)) = THRUST hw"
  unfolding command_thrust_def cap2_word_less by simp

theorem command_thrust_reject_witness:
  "2 * CFG_MAX_THRUST_N GROUND_BUILD < uint (8001 :: u32) \<and>
   command_thrust GROUND_BUILD 8001 (HW\<lparr>THRUST := 1500\<rparr>) =
     (ERR_THRUST_RANGE, HW\<lparr>THRUST := 1500\<rparr>) \<and>
   THRUST (snd (command_thrust GROUND_BUILD 8001 (HW\<lparr>THRUST := 1500\<rparr>))) = 1500"
  using command_thrust_reject [of GROUND_BUILD 8001 "HW\<lparr>THRUST := 1500\<rparr>"] by simp

text \<open>
  Claim C3. A request above the cap and of at most twice the cap is accepted with
  \<open>ERR_OK\<close> and leaves the cap in the thrust register; twice the cap itself is such a
  request.
\<close>

theorem command_thrust_clamp:
  "CFG_MAX_THRUST_N b < uint r \<Longrightarrow> uint r \<le> 2 * CFG_MAX_THRUST_N b \<Longrightarrow>
   command_thrust b r hw = (ERR_OK, hw\<lparr>THRUST := word_of_int (CFG_MAX_THRUST_N b)\<rparr>)"
  unfolding command_thrust_def cap2_word_less SET_THRUST_N_def cap_word_less by simp

theorem command_thrust_clamp_witness:
  "CFG_MAX_THRUST_N GROUND_BUILD < uint (8000 :: u32) \<and>
   uint (8000 :: u32) \<le> 2 * CFG_MAX_THRUST_N GROUND_BUILD \<and>
   command_thrust GROUND_BUILD 8000 HW = (ERR_OK, HW\<lparr>THRUST := 4000\<rparr>)"
  using command_thrust_clamp [of GROUND_BUILD 8000 HW] by simp

section \<open>The fault bit\<close>

text \<open>
  Claim C5. When the fault has been signalled, the next control cycle polls the
  temperature and commands the policy's thrust with success, and then returns
  \<open>ERR_SYSTEM_FAULT\<close>; the bank it leaves holds the thrust that this cycle commanded.
\<close>

theorem fault_reported_after_write:
  "let s = SIGNAL_FAULT hw;
       desired = (if sint (SENS_TEMP s) < 30 then 3000 else 1500)
   in poll_temperature_c c s 0 = (ERR_OK, sint (SENS_TEMP s)) \<and>
      command_thrust b desired s = (ERR_OK, s\<lparr>THRUST := desired\<rparr>) \<and>
      run_control_loop_once b c s = (ERR_SYSTEM_FAULT, s\<lparr>THRUST := desired\<rparr>) \<and>
      THRUST (snd (run_control_loop_once b c s)) = desired"
  by (simp add: Let_def poll_ok command_policy run_once_eq fault_after_signal)

text \<open>
  Claim C6. Once the fault bit is set it stays set, whatever sequence of operations
  follows: control cycles, thrust commands, thrust writes, temperature polls, enabling,
  disabling, and also initialisation, a further fault signal and the temperature
  mutation of the demo loop.
\<close>

theorem fault_latched: "fault_is_set hw \<Longrightarrow> fault_is_set (steps b c ops hw)"
  by (induction ops arbitrary: hw) (simp_all add: step_fault)

theorem fault_latched_witness:
  "fault_is_set (SIGNAL_FAULT HW) \<and>
   fault_is_set (steps GROUND_BUILD CPU_RISCV
     [Run_once, Command_thrust 9000, Set_thrust 7, Poll_temperature, Enable, Disable]
     (SIGNAL_FAULT HW))"
proof -
  have h: "fault_is_set (SIGNAL_FAULT HW)"
    by (simp add: fault_is_set_def fault_after_signal)
  from h fault_latched [OF h, of GROUND_BUILD CPU_RISCV
      "[Run_once, Command_thrust 9000, Set_thrust 7, Poll_temperature, Enable, Disable]"]
  show ?thesis by blast
qed

text \<open>
  Claim C7, amended. Initialisation sets the enable bit and seeds the temperature; it
  does not write the fault bit. So the fault test is false after initialisation when it
  was false before, as it is for the zero-initialised bank of the program start.
\<close>

theorem init_fault_clear:
  "\<not> fault_is_set hw \<Longrightarrow> \<not> fault_is_set (snd (init_system hw))"
  by (simp add: fault_is_set_def init_system_def ENABLE_SYSTEM_def fault_bit_enable)

theorem init_fault_clear_witness:
  "\<not> fault_is_set HW \<and> \<not> fault_is_set (snd (init_system HW))"
proof -
  have h: "\<not> fault_is_set HW"
    by (simp add: fault_is_set_def HW_def)
  from h init_fault_clear [OF h] show ?thesis by simp
qed

text \<open>
  From a bank whose fault bit is set, initialisation returns with the fault bit still
  set: the fault test is true right after it.
\<close>

theorem init_keeps_fault_counterexample:
  "fault_is_set (snd (init_system \<lparr>CTRL = 2, STATUS = 0, THRUST = 0, SENS_TEMP = 0\<rparr>))"
  by (simp add: fault_is_set_def init_system_def ENABLE_SYSTEM_def CTRL_ENABLE_eq CTRL_FAULT_eq)

section \<open>The demo cycles\<close>

text \<open>
  Claim C8. In the ground build, whose cap is 4000, start from the initialised bank
  (temperature 42) and run four control cycles with no fault signalled, adding 5 to the
  temperature after each. The cycles read 42, 47, 52 and 57, all at least 30; each
  commands thrust 1500, which the thrust register then holds, and returns
  \<open>ERR_OK\<close>.
\<close>

theorem demo_cycles_ok:
  "let s1 = snd (init_system HW);
       s2 = mutate_temp (snd (run_control_loop_once GROUND_BUILD c s1));
       s3 = mutate_temp (snd (run_control_loop_once GROUND_BUILD c s2));
       s4 = mutate_temp (snd (run_control_loop_once GROUND_BUILD c s3))
   in CFG_MAX_THRUST_N GROUND_BUILD = 4000 \<and>
      SENS_TEMP s1 = 42 \<and> SENS_TEMP s2 = 47 \<and> SENS_TEMP s3 = 52 \<and> SENS_TEMP s4 = 57 \<and>
      poll_temperature_c c s1 0 = (ERR_OK, 42) \<and> (30 :: int) \<le> 42 \<and>
      poll_temperature_c c s2 0 = (ERR_OK, 47) \<and> (30 :: int) \<le> 47 \<and>
      poll_temperature_c c s3 0 = (ERR_OK, 52) \<and> (30 :: int) \<le> 52 \<and>
      poll_temperature_c c s4 0 = (ERR_OK, 57) \<and> (30 :: int) \<le> 57 \<and>
      run_control_loop_once GROUND_BUILD c s1 = command_thrust GROUND_BUILD 1500 s1 \<and>
      run_control_loop_once GROUND_BUILD c s2 = command_thrust GROUND_BUILD 1500 s2 \<and>
      run_control_loop_once GROUND_BUILD c s3 = command_thrust GROUND_BUILD 1500 s3 \<and>
      run_control_loop_once GROUND_BUILD c s4 = command_thrust GROUND_BUILD 1500 s4 \<and>
      run_control_loop_once GROUND_BUILD c s1 = (ERR_OK, s1\<lparr>THRUST := 1500\<rparr>) \<and>
      run_control_loop_once GROUND_BUILD c s2 = (ERR_OK, s2\<lparr>THRUST := 1500\<rparr>) \<and>
      run_control_loop_once GROUND_BUILD c s3 = (ERR_OK, s3\<lparr>THRUST := 1500\<rparr>) \<and>
      run_control_loop_once GROUND_BUILD c s4 = (ERR_OK, s4\<lparr>THRUST := 1500\<rparr>)"
  using command_policy [of GROUND_BUILD 42]
  by (simp add: Let_def run_once_eq poll_ok init_system_def HW_def ENABLE_SYSTEM_def
      mutate_temp_def CTRL_ENABLE_eq CTRL_FAULT_eq)

text \<open>
  Claim C10. A control cycle writes no register but the thrust register: the control,
  status and temperature registers hold after the cycle what they held before it.
\<close>

theorem run_once_frame:
  "CTRL (snd (run_control_loop_once b c hw)) = CTRL hw \<and>
   STATUS (snd (run_control_loop_once b c hw)) = STATUS hw \<and>
   SENS_TEMP (snd (run_control_loop_once b c hw)) = SENS_TEMP hw"
  by (simp add: run_once_eq)

section \<open>Error messages\<close>

text \<open>
  Claim C9. The message lookup is total: each of the four error codes has its fixed
  message, every other integer has the message \<open>Unknown\<close>, and no message is empty.
\<close>

theorem error_to_str_total:
  "error_to_str ERR_OK = ''No Error'' \<and>
   error_to_str ERR_SENSOR_FAIL = ''Sensor Failure'' \<and>
   error_to_str ERR_THRUST_RANGE = ''Thrust Out of Range'' \<and>
   error_to_str ERR_SYSTEM_FAULT = ''System Fault'' \<and>
   (\<forall>e. e \<notin> {ERR_OK, ERR_SENSOR_FAIL, ERR_THRUST_RANGE, ERR_SYSTEM_FAULT}
      \<longrightarrow> error_to_str e = ''Unknown'') \<and>
   (\<forall>e. error_to_str e \<noteq> [])"
  by (simp add: error_to_str_def error_codes)

theorem error_to_str_total_witness:
  "(-1 :: int) \<notin> {ERR_OK, ERR_SENSOR_FAIL, ERR_THRUST_RANGE, ERR_SYSTEM_FAULT} \<and>
   error_to_str (-1) = ''Unknown''"
proof -
  have h: "(-1 :: int) \<notin> {ERR_OK, ERR_SENSOR_FAIL, ERR_THRUST_RANGE, ERR_SYSTEM_FAULT}"
    by (simp add: error_codes)
  from error_to_str_total have
    "(-1 :: int) \<notin> {ERR_OK, ERR_SENSOR_FAIL, ERR_THRUST_RANGE, ERR_SYSTEM_FAULT}
      \<longrightarrow> error_to_str (-1) = ''Unknown''"
    by blast
  with h show ?thesis by blast
qed

end
